theory Spec2Isabelle
  imports Complex_Main
begin

section \<open>Orbit camera of \<^verbatim>\<open>src/shared/camera.js\<close>\<close>

text \<open>
  The JavaScript numbers of the source are modelled as the real numbers, so every statement
  below is about exact arithmetic: rounding, infinities and NaN are outside the model.
  The renderer uniforms (\<^verbatim>\<open>uni\<close>), the canvas and the readout (\<^verbatim>\<open>gui.io\<close>) are only written
  to by \<^verbatim>\<open>updateMatrix\<close> and \<^verbatim>\<open>updatePosition\<close> and never read back, so they are not
  part of the state; \<^verbatim>\<open>e.preventDefault()\<close> acts on the event object only.
\<close>

subsection \<open>Helpers and constants\<close>

definition clamp :: "real \<Rightarrow> real \<Rightarrow> real \<Rightarrow> real" where
  "clamp x mn mx = max mn (min mx x)"

definition toRad :: "real \<Rightarrow> real" where
  "toRad x = x * pi / 180"

definition toDeg :: "real \<Rightarrow> real" where
  "toDeg x = x / pi * 180"

definition ROT_SPEED :: real where "ROT_SPEED = 0.005"
definition PAN_SPEED :: real where "PAN_SPEED = 0.001"
definition ZOOM_SPEED :: real where "ZOOM_SPEED = 0.0005"
definition FOV_SPEED :: real where "FOV_SPEED = 0.0002"

definition KEY_ROT_SPEED :: real where "KEY_ROT_SPEED = 3 / 15"
definition KEY_PAN_SPEED :: real where "KEY_PAN_SPEED = 5 / 15"
definition KEY_ZOOM_SPEED :: real where "KEY_ZOOM_SPEED = 0.01 / 15"
definition KEY_FOV_SPEED :: real where "KEY_FOV_SPEED = 0.005 / 15"

definition minFOV :: real where "minFOV = toRad 1"
definition maxFOV :: real where "maxFOV = toRad 120"

subsection \<open>The vector library\<close>

text \<open>
  \<^verbatim>\<open>vec3\<close> is an external library (every call returns a fresh vector). Its operations are
  given their usual meaning; \<^verbatim>\<open>normalize\<close> returns the zero vector for a vector of
  (almost) no length. No statement below depends on more than \<^verbatim>\<open>scaleAndAdd\<close>.
\<close>

type_synonym vec3 = "real \<times> real \<times> real"

definition fromValues :: "real \<Rightarrow> real \<Rightarrow> real \<Rightarrow> vec3" where
  "fromValues x y z = (x, y, z)"

definition create :: vec3 where
  "create = (0, 0, 0)"

fun add :: "vec3 \<Rightarrow> vec3 \<Rightarrow> vec3" where
  "add (a0, a1, a2) (b0, b1, b2) = (a0 + b0, a1 + b1, a2 + b2)"

fun subtract :: "vec3 \<Rightarrow> vec3 \<Rightarrow> vec3" where
  "subtract (a0, a1, a2) (b0, b1, b2) = (a0 - b0, a1 - b1, a2 - b2)"

fun scale :: "vec3 \<Rightarrow> real \<Rightarrow> vec3" where
  "scale (a0, a1, a2) k = (a0 * k, a1 * k, a2 * k)"

fun scaleAndAdd :: "vec3 \<Rightarrow> vec3 \<Rightarrow> real \<Rightarrow> vec3" where
  "scaleAndAdd (a0, a1, a2) (b0, b1, b2) k = (a0 + b0 * k, a1 + b1 * k, a2 + b2 * k)"

fun cross :: "vec3 \<Rightarrow> vec3 \<Rightarrow> vec3" where
  "cross (a0, a1, a2) (b0, b1, b2) =
     (a1 * b2 - a2 * b1, a2 * b0 - a0 * b2, a0 * b1 - a1 * b0)"

fun normalize :: "vec3 \<Rightarrow> vec3" where
  "normalize (v0, v1, v2) =
     (let len = sqrt (v0 * v0 + v1 * v1 + v2 * v2)
      in if len > 0.00001 then (v0 / len, v1 / len, v2 / len) else (0, 0, 0))"

subsection \<open>Camera state\<close>

text \<open>
  The fields of the \<^verbatim>\<open>defaults\<close> object; a \<^verbatim>\<open>Camera\<close> has the same fields and
  \<^verbatim>\<open>worldUp\<close>.
\<close>

record pose =
  target :: vec3
  distance :: real
  position :: vec3
  azimuth :: real
  elevation :: real
  fov :: real
  near :: real
  far :: real
  invertMatrix :: bool

record camera = pose +
  worldUp :: vec3

definition defaults :: pose where
  "defaults = \<lparr> target = fromValues 0 0 0, distance = 1, position = create,
                 azimuth = 0, elevation = 0, fov = toRad 60, near = 0.1, far = 100,
                 invertMatrix = True \<rparr>"

text \<open>The event fields that the handlers read.\<close>

record modifiers =
  altKey :: bool
  ctrlKey :: bool

record keyEvent = modifiers +
  key :: string
  tagName :: string

record wheelEvent = modifiers +
  deltaY :: real

record mouseEvent = modifiers +
  button :: int
  clientX :: real
  clientY :: real

subsection \<open>Camera methods\<close>

definition updatePosition :: "camera \<Rightarrow> camera" where
  "updatePosition c =
     (let x = cos (elevation c) * sin (azimuth c);
          y = sin (elevation c);
          z = cos (elevation c) * cos (azimuth c)
      in c\<lparr> position := scaleAndAdd (target c) (x, y, z) (distance c) \<rparr>)"

definition Camera :: "pose \<Rightarrow> camera" where
  "Camera d = updatePosition
     \<lparr> target = target d, distance = distance d, position = position d,
       azimuth = azimuth d, elevation = elevation d, fov = fov d,
       near = near d, far = far d, invertMatrix = invertMatrix d,
       worldUp = fromValues 0 1 0 \<rparr>"

definition viewDir :: "camera \<Rightarrow> vec3" where
  "viewDir c = normalize (subtract (target c) (position c))"

definition viewRight :: "camera \<Rightarrow> vec3" where
  "viewRight c = normalize (cross (viewDir c) (worldUp c))"

definition viewUp :: "camera \<Rightarrow> vec3" where
  "viewUp c = normalize (cross (viewRight c) (viewDir c))"

definition orbit :: "real \<Rightarrow> real \<Rightarrow> camera \<Rightarrow> camera" where
  "orbit dx dy c =
     (let c1 = c\<lparr> azimuth := azimuth c - dx * ROT_SPEED \<rparr>;
          c2 = c1\<lparr> elevation := elevation c1 + dy * ROT_SPEED \<rparr>;
          limit = pi / 2 - 0.01;
          c3 = c2\<lparr> elevation := clamp (elevation c2) (- limit) limit \<rparr>
      in updatePosition c3)"

definition pan :: "real \<Rightarrow> real \<Rightarrow> real \<Rightarrow> camera \<Rightarrow> camera" where
  "pan dx dy dz c =
     (let adjustedPanSpeed = PAN_SPEED * distance c * fov c;
          p = scaleAndAdd
                (scaleAndAdd
                   (scale (viewRight c) (- dx * adjustedPanSpeed))
                   (viewUp c)
                   (dy * adjustedPanSpeed))
                (viewDir c)
                (dz * adjustedPanSpeed);
          c1 = c\<lparr> target := add (target c) p \<rparr>;
          c2 = c1\<lparr> position := add (position c1) p \<rparr>
      in updatePosition c2)"

definition zoom :: "real \<Rightarrow> camera \<Rightarrow> camera" where
  "zoom delta c =
     updatePosition (c\<lparr> distance := clamp ((delta + 1) * distance c) (near c) (far c) \<rparr>)"

definition adjFOV :: "real \<Rightarrow> camera \<Rightarrow> camera" where
  "adjFOV delta c =
     updatePosition (c\<lparr> fov := clamp (fov c + delta) minFOV maxFOV \<rparr>)"

definition adjFOVWithoutZoom :: "real \<Rightarrow> camera \<Rightarrow> camera" where
  "adjFOVWithoutZoom delta c =
     (let initial = tan (fov c / 2) * distance c;
          c1 = c\<lparr> fov := clamp (fov c + delta) minFOV maxFOV \<rparr>;
          c2 = c1\<lparr> distance := initial / tan (fov c1 / 2) \<rparr>
      in updatePosition c2)"

definition reset :: "'a modifiers_scheme \<Rightarrow> camera \<Rightarrow> camera" where
  "reset e c =
     (let c1 = c\<lparr> fov := fov defaults \<rparr>;
          c2 = (if \<not> ctrlKey e then c1\<lparr> distance := distance defaults \<rparr> else c1);
          c3 = (if \<not> altKey e \<and> \<not> ctrlKey e
                then c2\<lparr> azimuth := azimuth defaults, elevation := elevation defaults,
                         target := target defaults \<rparr>
                else c2)
      in updatePosition c3)"

subsection \<open>Input state and handlers\<close>

text \<open>
  \<^verbatim>\<open>keyState[type][dir]\<close> is a table of booleans indexed by the two strings of a
  \<^verbatim>\<open>keyMap\<close> entry. The lists below are the own properties of the three inner objects,
  which is what \<^verbatim>\<open>Object.values\<close> enumerates. \<^verbatim>\<open>keyMap\<close> is looked up at the \<^verbatim>\<open>key\<close>
  value of a keyboard event; no such value names a property that an object inherits, so
  the lookup is a lookup among the twelve entries.
\<close>

datatype ktype = Orbit | Pan | Zoom

datatype kdir = Up | Down | Left | Right | Forward | Backward | In | Out

definition orbit_dirs :: "kdir list" where
  "orbit_dirs = [Up, Down, Left, Right]"

definition pan_dirs :: "kdir list" where
  "pan_dirs = [Up, Down, Left, Right, Forward, Backward]"

definition keyMap :: "string \<Rightarrow> (ktype \<times> kdir) option" where
  "keyMap = map_of
     [(''ArrowUp'', (Orbit, Up)),
      (''ArrowDown'', (Orbit, Down)),
      (''ArrowLeft'', (Orbit, Left)),
      (''ArrowRight'', (Orbit, Right)),
      (''w'', (Pan, Forward)),
      (''a'', (Pan, Left)),
      (''s'', (Pan, Backward)),
      (''d'', (Pan, Right)),
      (''g'', (Pan, Up)),
      (''v'', (Pan, Down)),
      (''f'', (Zoom, In)),
      (''c'', (Zoom, Out))]"

text \<open>
  The calls of camera methods that the handlers make. The field \<open>invoked\<close> of the state
  below is a log of them, in order: it is not a variable of the source, it records which
  methods a handler has called.
\<close>

datatype call =
    CallOrbit real real
  | CallPan real real real
  | CallZoom real
  | CallAdjFOV real
  | CallAdjFOVWithoutZoom real
  | CallReset bool bool
  | CallUpdatePosition

fun run :: "call \<Rightarrow> camera \<Rightarrow> camera" where
  "run (CallOrbit dx dy) c = orbit dx dy c"
| "run (CallPan dx dy dz) c = pan dx dy dz c"
| "run (CallZoom delta) c = zoom delta c"
| "run (CallAdjFOV delta) c = adjFOV delta c"
| "run (CallAdjFOVWithoutZoom delta) c = adjFOVWithoutZoom delta c"
| "run (CallReset alt ctrl) c = reset \<lparr> altKey = alt, ctrlKey = ctrl \<rparr> c"
| "run CallUpdatePosition c = updatePosition c"

text \<open>The pointer state \<^verbatim>\<open>state\<close>.\<close>

record pointer =
  orbitActive :: bool
  panActive :: bool
  lastX :: real
  lastY :: real

text \<open>
  The module-level variables, and the global \<^verbatim>\<open>camera\<close>, which is taken to be constructed
  from \<^verbatim>\<open>defaults\<close> (the file uses it and does not construct it).
\<close>

record world =
  state :: pointer
  keyState :: "ktype \<Rightarrow> kdir \<Rightarrow> bool"
  keyOrbit :: bool
  keyPan :: bool
  keyZoom :: bool
  keyFOV :: bool
  keyFOVWithoutZoom :: bool
  camera :: camera
  invoked :: "call list"

definition world0 :: world where
  "world0 = \<lparr> state = \<lparr> orbitActive = False, panActive = False, lastX = 0, lastY = 0 \<rparr>,
               keyState = (\<lambda>t d. False), keyOrbit = False, keyPan = False,
               keyZoom = False, keyFOV = False, keyFOVWithoutZoom = False,
               camera = Camera defaults, invoked = [] \<rparr>"

definition invoke :: "call \<Rightarrow> world \<Rightarrow> world" where
  "invoke k w = w\<lparr> camera := run k (camera w), invoked := invoked w @ [k] \<rparr>"

text \<open>A boolean in arithmetic: \<^verbatim>\<open>true\<close> is 1 and \<^verbatim>\<open>false\<close> is 0.\<close>

definition num :: "bool \<Rightarrow> real" where
  "num b = (if b then 1 else 0)"

definition handleInputs :: "real \<Rightarrow> world \<Rightarrow> world" where
  "handleInputs speedMultiplier w =
     (let w1 = (if keyOrbit w then
                  (let speed = KEY_ROT_SPEED * speedMultiplier
                   in invoke (CallOrbit
                        ((num (keyState w Orbit Left) - num (keyState w Orbit Right)) * speed)
                        ((num (keyState w Orbit Up) - num (keyState w Orbit Down)) * speed)) w)
                else w);
          w2 = (if keyPan w1 then
                  (let speed = KEY_PAN_SPEED * speedMultiplier
                   in invoke (CallPan
                        ((num (keyState w1 Pan Left) - num (keyState w1 Pan Right)) * speed)
                        ((num (keyState w1 Pan Up) - num (keyState w1 Pan Down)) * speed)
                        ((num (keyState w1 Pan Forward) - num (keyState w1 Pan Backward)) * speed))
                        w1)
                else w1);
          w3 = (if keyZoom w2 then
                  invoke (CallZoom
                    ((num (keyState w2 Zoom Out) - num (keyState w2 Zoom In))
                       * KEY_ZOOM_SPEED * speedMultiplier)) w2
                else w2);
          w4 = (if keyFOV w3 then
                  invoke (CallAdjFOV
                    ((num (keyState w3 Zoom Out) - num (keyState w3 Zoom In))
                       * KEY_FOV_SPEED * speedMultiplier)) w3
                else w3);
          w5 = (if keyFOVWithoutZoom w4 then
                  invoke (CallAdjFOVWithoutZoom
                    ((num (keyState w4 Zoom Out) - num (keyState w4 Zoom In))
                       * KEY_FOV_SPEED * speedMultiplier)) w4
                else w4)
      in w5)"

definition mousedown :: "mouseEvent \<Rightarrow> world \<Rightarrow> world" where
  "mousedown e w =
     (let w1 = (if button e = 0 then w\<lparr> state := (state w)\<lparr> orbitActive := True \<rparr> \<rparr> else w);
          w2 = (if button e = 2 then w1\<lparr> state := (state w1)\<lparr> panActive := True \<rparr> \<rparr> else w1);
          w3 = (if button e = 1
                then invoke CallUpdatePosition (invoke (CallReset (altKey e) (ctrlKey e)) w2)
                else w2)
      in w3\<lparr> state := (state w3)\<lparr> lastX := clientX e, lastY := clientY e \<rparr> \<rparr>)"

definition mouseup :: "mouseEvent \<Rightarrow> world \<Rightarrow> world" where
  "mouseup e w =
     (let w1 = (if button e = 0 then w\<lparr> state := (state w)\<lparr> orbitActive := False \<rparr> \<rparr> else w);
          w2 = (if button e = 2 then w1\<lparr> state := (state w1)\<lparr> panActive := False \<rparr> \<rparr> else w1)
      in w2)"

definition mousemove :: "mouseEvent \<Rightarrow> world \<Rightarrow> world" where
  "mousemove e w =
     (let dx = clientX e - lastX (state w);
          dy = clientY e - lastY (state w);
          w1 = w\<lparr> state := (state w)\<lparr> lastX := clientX e, lastY := clientY e \<rparr> \<rparr>;
          w2 = (if orbitActive (state w1) then invoke (CallOrbit dx dy) w1 else w1);
          w3 = (if panActive (state w2) then invoke (CallPan dx dy 0) w2 else w2)
      in w3)"

definition wheel :: "wheelEvent \<Rightarrow> world \<Rightarrow> world" where
  "wheel e w =
     (if altKey e then invoke (CallAdjFOVWithoutZoom (deltaY e * FOV_SPEED)) w
      else if ctrlKey e then invoke (CallAdjFOV (deltaY e * FOV_SPEED)) w
      else invoke (CallZoom (deltaY e * ZOOM_SPEED)) w)"

text \<open>The condition under which \<^verbatim>\<open>keyCamera\<close> returns at once.\<close>

definition ignored :: "keyEvent \<Rightarrow> bool" where
  "ignored e \<longleftrightarrow>
     keyMap (key e) = None \<or> tagName e = ''INPUT'' \<or> (key e = ''r'' \<and> ctrlKey e)"

definition keyCamera :: "keyEvent \<Rightarrow> bool \<Rightarrow> world \<Rightarrow> world" where
  "keyCamera e val w =
     (if ignored e then w
      else
        (case the (keyMap (key e)) of (type, dir) \<Rightarrow>
          (let w1 = w\<lparr> keyState := (keyState w)(type := (keyState w type)(dir := val)) \<rparr>;
               zoomActive = (keyState w1 Zoom In \<or> keyState w1 Zoom Out)
           in w1\<lparr> keyOrbit := list_ex (keyState w1 Orbit) orbit_dirs,
                   keyPan := list_ex (keyState w1 Pan) pan_dirs,
                   keyZoom := (\<not> (ctrlKey e \<or> altKey e) \<and> zoomActive),
                   keyFOV := (ctrlKey e \<and> zoomActive),
                   keyFOVWithoutZoom := (altKey e \<and> zoomActive) \<rparr>)))"

definition keydown :: "keyEvent \<Rightarrow> world \<Rightarrow> world" where
  "keydown e w =
     keyCamera e True
       (if key e = ''Alt'' then w
        else if key e = '' '' then invoke (CallReset (altKey e) (ctrlKey e)) w
        else w)"

definition keyup :: "keyEvent \<Rightarrow> world \<Rightarrow> world" where
  "keyup e w = keyCamera e False w"

subsection \<open>Predicates of the specification\<close>

text \<open>The range of the distance: \<open>near \<le> distance \<le> far\<close>.\<close>

definition in_range :: "camera \<Rightarrow> bool" where
  "in_range c \<longleftrightarrow> near c \<le> distance c \<and> distance c \<le> far c"

text \<open>
  The position as the specification derives it:
  \<open>target + distance \<cdot> (cos elevation \<cdot> sin azimuth, sin elevation, cos elevation \<cdot> cos azimuth)\<close>.
  This definition follows the words of the specification; \<open>updatePosition\<close> above is
  the code.
\<close>

definition derived_position :: "camera \<Rightarrow> vec3" where
  "derived_position c =
     (case target c of (tx, ty, tz) \<Rightarrow>
        (tx + distance c * (cos (elevation c) * sin (azimuth c)),
         ty + distance c * sin (elevation c),
         tz + distance c * (cos (elevation c) * cos (azimuth c))))"

definition position_ok :: "camera \<Rightarrow> bool" where
  "position_ok c \<longleftrightarrow> position c = derived_position c"

text \<open>
  The states that the program can be in: it starts with all keys and buttons up and a camera
  constructed from \<^verbatim>\<open>defaults\<close>, and then handles mouse, wheel and key events and
  animation ticks. The last rule is a call of a camera method from elsewhere.
\<close>

inductive reachable :: "world \<Rightarrow> bool" where
  start: "reachable world0"
| on_keydown: "reachable w \<Longrightarrow> reachable (keydown e w)"
| on_keyup: "reachable w \<Longrightarrow> reachable (keyup e w)"
| on_wheel: "reachable w \<Longrightarrow> reachable (wheel e w)"
| on_mousedown: "reachable w \<Longrightarrow> reachable (mousedown e w)"
| on_mouseup: "reachable w \<Longrightarrow> reachable (mouseup e w)"
| on_mousemove: "reachable w \<Longrightarrow> reachable (mousemove e w)"
| on_tick: "reachable w \<Longrightarrow> reachable (handleInputs speedMultiplier w)"
| on_call: "reachable w \<Longrightarrow> reachable (invoke k w)"

section \<open>Basic facts\<close>

lemma clamp_bounds: "mn \<le> mx \<Longrightarrow> mn \<le> clamp x mn mx \<and> clamp x mn mx \<le> mx"
  by (simp add: clamp_def)

lemma fov_bounds: "0 < minFOV" "minFOV \<le> maxFOV" "maxFOV < pi"
  by (simp_all add: minFOV_def maxFOV_def toRad_def)

lemma tan_half_fov_pos:
  assumes "minFOV \<le> f" "f \<le> maxFOV"
  shows "0 < tan (f / 2)"
proof -
  have "0 < f / 2" using assms fov_bounds by simp
  moreover have "f / 2 < pi / 2" using assms fov_bounds by simp
  ultimately show ?thesis by (rule tan_gt_zero)
qed

lemma updatePosition_fields [simp]:
  "target (updatePosition c) = target c"
  "distance (updatePosition c) = distance c"
  "azimuth (updatePosition c) = azimuth c"
  "elevation (updatePosition c) = elevation c"
  "fov (updatePosition c) = fov c"
  "near (updatePosition c) = near c"
  "far (updatePosition c) = far c"
  by (simp_all add: updatePosition_def Let_def)

lemma updatePosition_ok [simp]: "position_ok (updatePosition c)"
  by (cases "target c")
    (simp add: position_ok_def derived_position_def updatePosition_def Let_def algebra_simps)

lemma run_ok: "position_ok (run k c)"
  by (cases k)
    (simp_all add: orbit_def pan_def zoom_def adjFOV_def adjFOVWithoutZoom_def reset_def Let_def)

lemma invoke_ok: "position_ok (camera (invoke k w))"
  by (simp add: invoke_def run_ok)

lemma handleInputs_ok: "position_ok (camera w) \<Longrightarrow> position_ok (camera (handleInputs s w))"
  by (simp add: handleInputs_def Let_def invoke_ok)

lemma keyCamera_camera: "camera (keyCamera e val w) = camera w"
  by (simp add: keyCamera_def Let_def split: prod.splits)

lemma run_clip: "near (run k c) = near c \<and> far (run k c) = far c"
  by (cases k)
    (simp_all add: orbit_def pan_def zoom_def adjFOV_def adjFOVWithoutZoom_def reset_def Let_def)

lemma invoke_clip:
  "near (camera (invoke k w)) = near (camera w) \<and> far (camera (invoke k w)) = far (camera w)"
  by (simp add: invoke_def run_clip)

lemma reachable_clip: "reachable w \<Longrightarrow> near (camera w) = 0.1 \<and> far (camera w) = 100"
proof (induction rule: reachable.induct)
  case start
  show ?case by (simp add: world0_def Camera_def defaults_def)
next
  case (on_keydown w e)
  then show ?case by (simp add: keydown_def keyCamera_camera invoke_clip)
next
  case (on_keyup w e)
  then show ?case by (simp add: keyup_def keyCamera_camera)
next
  case (on_wheel w e)
  then show ?case by (simp add: wheel_def invoke_clip)
next
  case (on_mousedown w e)
  then show ?case by (simp add: mousedown_def Let_def invoke_clip)
next
  case (on_mouseup w e)
  then show ?case by (simp add: mouseup_def Let_def)
next
  case (on_mousemove w e)
  then show ?case by (simp add: mousemove_def Let_def invoke_clip)
next
  case (on_tick w s)
  then show ?case by (simp add: handleInputs_def Let_def invoke_clip)
next
  case (on_call w k)
  then show ?case by (simp add: invoke_clip)
qed

lemma reachable_ok: "reachable w \<Longrightarrow> position_ok (camera w)"
proof (induction rule: reachable.induct)
  case start
  show ?case by (simp add: world0_def Camera_def)
next
  case (on_keydown w e)
  then show ?case by (simp add: keydown_def keyCamera_camera invoke_ok)
next
  case (on_keyup w e)
  then show ?case by (simp add: keyup_def keyCamera_camera)
next
  case (on_wheel w e)
  show ?case by (simp add: wheel_def invoke_ok)
next
  case (on_mousedown w e)
  then show ?case by (simp add: mousedown_def Let_def invoke_ok)
next
  case (on_mouseup w e)
  then show ?case by (simp add: mouseup_def Let_def)
next
  case (on_mousemove w e)
  then show ?case by (simp add: mousemove_def Let_def invoke_ok)
next
  case (on_tick w s)
  then show ?case by (simp add: handleInputs_ok)
next
  case (on_call w k)
  show ?case by (rule invoke_ok)
qed

lemma keyMap_f: "keyMap ''f'' = Some (Zoom, In)"
  by (simp add: keyMap_def)

lemma keyMap_space: "keyMap '' '' = None"
  by (simp add: keyMap_def)

lemma zoom_flags_exclusive:
  assumes "\<not> ignored e" "\<not> (ctrlKey e \<and> altKey e)"
  shows "\<not> (keyZoom (keyCamera e val w) \<and> keyFOV (keyCamera e val w)) \<and>
         \<not> (keyZoom (keyCamera e val w) \<and> keyFOVWithoutZoom (keyCamera e val w)) \<and>
         \<not> (keyFOV (keyCamera e val w) \<and> keyFOVWithoutZoom (keyCamera e val w))"
  using assms by (auto simp add: keyCamera_def Let_def split: prod.splits)

lemma camera0_fields:
  "distance (Camera defaults) = 1"
  "near (Camera defaults) = 0.1"
  "far (Camera defaults) = 100"
  "fov (Camera defaults) = pi / 3"
  "azimuth (Camera defaults) = 0"
  "elevation (Camera defaults) = 0"
  "target (Camera defaults) = (0, 0, 0)"
  by (simp_all add: Camera_def defaults_def toRad_def fromValues_def)

lemma in_range_kept:
  assumes "in_range c"
  shows "in_range (orbit dx dy c)" "in_range (pan dx dy dz c)" "in_range (zoom delta c)"
    "in_range (adjFOV delta c)"
proof -
  from assms have "near c \<le> far c" by (simp add: in_range_def)
  then show "in_range (zoom delta c)"
    using clamp_bounds [of "near c" "far c"] by (simp add: in_range_def zoom_def)
  from assms show "in_range (orbit dx dy c)" "in_range (pan dx dy dz c)"
    "in_range (adjFOV delta c)"
    by (simp_all add: in_range_def orbit_def pan_def adjFOV_def Let_def)
qed

section \<open>The distance and its range\<close>

text \<open>
  C1. The specification keeps \<open>near \<le> distance \<le> far\<close> across every pose-mutating
  operation, \<^verbatim>\<open>adjFOVWithoutZoom\<close> included. \<^verbatim>\<open>zoom\<close> clamps the distance it writes
  (lemma \<open>in_range_kept\<close>); \<^verbatim>\<open>adjFOVWithoutZoom\<close> writes \<open>initial / tan (fov / 2)\<close>
  as it is. After \<^verbatim>\<open>zoom(-1)\<close> on the default camera the distance is \<open>near = 0.1\<close>, and
  widening the field of view from 60 to 90 degrees then gives the distance
  \<open>0.1 / sqrt 3\<close>, which is below \<open>near\<close>.
\<close>

theorem C1_adjFOVWithoutZoom_below_near:
  "in_range (zoom (- 1) (Camera defaults)) \<and>
   distance (adjFOVWithoutZoom (pi / 6) (zoom (- 1) (Camera defaults))) = 0.1 / sqrt 3 \<and>
   near (adjFOVWithoutZoom (pi / 6) (zoom (- 1) (Camera defaults))) = 0.1 \<and>
   \<not> in_range (adjFOVWithoutZoom (pi / 6) (zoom (- 1) (Camera defaults)))"
proof -
  have z: "distance (zoom (- 1) (Camera defaults)) = 0.1"
      "near (zoom (- 1) (Camera defaults)) = 0.1"
      "far (zoom (- 1) (Camera defaults)) = 100"
      "fov (zoom (- 1) (Camera defaults)) = pi / 3"
    by (simp_all add: zoom_def camera0_fields clamp_def)
  have f: "clamp (pi / 2) minFOV maxFOV = pi / 2"
    by (simp add: clamp_def minFOV_def maxFOV_def toRad_def)
  have d: "distance (adjFOVWithoutZoom (pi / 6) (zoom (- 1) (Camera defaults))) = 0.1 / sqrt 3"
    by (simp add: adjFOVWithoutZoom_def Let_def z f tan_30 tan_45)
  have n: "near (adjFOVWithoutZoom (pi / 6) (zoom (- 1) (Camera defaults))) = 0.1"
    by (simp add: adjFOVWithoutZoom_def Let_def z)
  have "1 < sqrt 3" by simp
  then have lt: "0.1 / sqrt 3 < (0.1::real)" by (simp add: field_simps)
  have a: "in_range (zoom (- 1) (Camera defaults))"
    unfolding in_range_def z by simp
  have b: "\<not> in_range (adjFOVWithoutZoom (pi / 6) (zoom (- 1) (Camera defaults)))"
    unfolding in_range_def d n using lt by simp
  from a b d n show ?thesis by blast
qed

section \<open>Orbit\<close>

text \<open>
  C2. \<^verbatim>\<open>orbit(dx, dy)\<close> sets the azimuth to \<open>azimuth - dx \<cdot> ROT_SPEED\<close> and the elevation to
  \<open>elevation + dy \<cdot> ROT_SPEED\<close> clamped to \<open>[-(\<pi>/2 - 0.01), \<pi>/2 - 0.01]\<close>, so the new elevation
  lies in that range. With \<open>ROT_SPEED = 0.005\<close>, on a camera constructed with distance 1,
  azimuth 0 and elevation 0, \<^verbatim>\<open>orbit(100, 0)\<close> gives the azimuth \<open>-0.5\<close> and the position
  \<open>target + distance \<cdot> (sin (-0.5), 0, cos (-0.5))\<close>.
\<close>

theorem C2_orbit:
  "azimuth (orbit dx dy c) = azimuth c - dx * ROT_SPEED \<and>
   elevation (orbit dx dy c)
     = clamp (elevation c + dy * ROT_SPEED) (- (pi / 2 - 0.01)) (pi / 2 - 0.01) \<and>
   - (pi / 2 - 0.01) \<le> elevation (orbit dx dy c) \<and>
   elevation (orbit dx dy c) \<le> pi / 2 - 0.01 \<and>
   ROT_SPEED = 0.005 \<and>
   (distance d = 1 \<and> azimuth d = 0 \<and> elevation d = 0 \<longrightarrow>
      azimuth (orbit 100 0 (Camera d)) = - 0.5 \<and>
      position (orbit 100 0 (Camera d))
        = (case target d of (tx, ty, tz) \<Rightarrow>
             (tx + distance d * sin (- 0.5), ty + distance d * 0, tz + distance d * cos (- 0.5))))"
proof -
  have lim: "- (pi / 2 - 0.01) \<le> pi / 2 - 0.01"
    using pi_ge_two by simp
  have a: "azimuth (orbit dx dy c) = azimuth c - dx * ROT_SPEED"
    by (simp add: orbit_def Let_def)
  have e: "elevation (orbit dx dy c)
     = clamp (elevation c + dy * ROT_SPEED) (- (pi / 2 - 0.01)) (pi / 2 - 0.01)"
    by (simp add: orbit_def Let_def)
  have r: "- (pi / 2 - 0.01) \<le> elevation (orbit dx dy c) \<and>
           elevation (orbit dx dy c) \<le> pi / 2 - 0.01"
    unfolding e using clamp_bounds [OF lim] by blast
  have s: "distance d = 1 \<and> azimuth d = 0 \<and> elevation d = 0 \<longrightarrow>
      azimuth (orbit 100 0 (Camera d)) = - 0.5 \<and>
      position (orbit 100 0 (Camera d))
        = (case target d of (tx, ty, tz) \<Rightarrow>
             (tx + distance d * sin (- 0.5), ty + distance d * 0, tz + distance d * cos (- 0.5)))"
  proof (intro impI)
    assume h: "distance d = 1 \<and> azimuth d = 0 \<and> elevation d = 0"
    have cl: "clamp 0 (- (pi / 2 - 0.01)) (pi / 2 - 0.01) = 0"
      using pi_ge_two by (simp add: clamp_def)
    obtain tx ty tz where t: "target d = (tx, ty, tz)" by (cases "target d") auto
    show "azimuth (orbit 100 0 (Camera d)) = - 0.5 \<and>
      position (orbit 100 0 (Camera d))
        = (case target d of (tx, ty, tz) \<Rightarrow>
             (tx + distance d * sin (- 0.5), ty + distance d * 0, tz + distance d * cos (- 0.5)))"
      using h cl t
      by (simp add: orbit_def Camera_def updatePosition_def Let_def ROT_SPEED_def)
  qed
  from a e r s show ?thesis by (simp add: ROT_SPEED_def)
qed

theorem C2_orbit_witness:
  "distance defaults = 1 \<and> azimuth defaults = 0 \<and> elevation defaults = 0 \<and>
   azimuth (orbit 100 0 (Camera defaults)) = - 0.5 \<and>
   position (orbit 100 0 (Camera defaults)) = (sin (- 0.5), 0, cos (- 0.5))"
  using C2_orbit [of 100 0 "Camera defaults" defaults]
  by (simp add: defaults_def fromValues_def)

section \<open>Zoom\<close>

text \<open>
  C3. \<^verbatim>\<open>zoom(delta)\<close> sets the distance to \<open>distance \<cdot> (1 + delta)\<close> clamped to
  \<open>[near, far]\<close>; on a camera whose clip distances are in order (\<open>near \<le> far\<close>), and so
  on the camera of every state that the program reaches, the new distance lies between
  them for every \<open>delta\<close>, also \<open>delta \<le> -1\<close>. With
  \<open>near = 0.1\<close>, \<^verbatim>\<open>zoom(0.1)\<close> on distance 10 gives 11 and \<^verbatim>\<open>zoom(-1)\<close> after it gives
  \<open>near\<close>.
\<close>

theorem C3_zoom:
  "distance (zoom delta c) = clamp (distance c * (1 + delta)) (near c) (far c) \<and>
   (near c \<le> far c \<longrightarrow>
      near (zoom delta c) \<le> distance (zoom delta c) \<and>
      distance (zoom delta c) \<le> far (zoom delta c)) \<and>
   (reachable w \<longrightarrow>
      near (zoom delta (camera w)) \<le> distance (zoom delta (camera w)) \<and>
      distance (zoom delta (camera w)) \<le> far (zoom delta (camera w))) \<and>
   (near c = 0.1 \<and> distance c = 10 \<and> 11 \<le> far c \<longrightarrow>
      distance (zoom 0.1 c) = 11 \<and> distance (zoom (- 1) (zoom 0.1 c)) = near c)"
proof -
  have d: "distance (zoom x k) = clamp (distance k * (1 + x)) (near k) (far k)" for x k
    by (simp add: zoom_def mult.commute add.commute)
  have nf: "near (zoom x k) = near k" "far (zoom x k) = far k" for x k
    by (simp_all add: zoom_def)
  have r: "near c \<le> far c \<longrightarrow>
      near (zoom delta c) \<le> distance (zoom delta c) \<and>
      distance (zoom delta c) \<le> far (zoom delta c)"
    unfolding d nf using clamp_bounds by blast
  have rw: "reachable w \<longrightarrow>
      near (zoom delta (camera w)) \<le> distance (zoom delta (camera w)) \<and>
      distance (zoom delta (camera w)) \<le> far (zoom delta (camera w))"
  proof
    assume "reachable w"
    then have "near (camera w) \<le> far (camera w)"
      using reachable_clip [of w] by simp
    then show "near (zoom delta (camera w)) \<le> distance (zoom delta (camera w)) \<and>
      distance (zoom delta (camera w)) \<le> far (zoom delta (camera w))"
      unfolding d nf using clamp_bounds by blast
  qed
  have s: "near c = 0.1 \<and> distance c = 10 \<and> 11 \<le> far c \<longrightarrow>
      distance (zoom 0.1 c) = 11 \<and> distance (zoom (- 1) (zoom 0.1 c)) = near c"
    unfolding d nf by (simp add: clamp_def)
  from d r rw s show ?thesis by blast
qed

theorem C3_zoom_witness:
  "near (zoom 9 (Camera defaults)) = 0.1 \<and>
   distance (zoom 9 (Camera defaults)) = 10 \<and>
   far (zoom 9 (Camera defaults)) = 100 \<and>
   distance (zoom 0.1 (zoom 9 (Camera defaults))) = 11 \<and>
   distance (zoom (- 1) (zoom 0.1 (zoom 9 (Camera defaults)))) = 0.1 \<and>
   near (zoom (- 5) (zoom 9 (Camera defaults)))
     \<le> distance (zoom (- 5) (zoom 9 (Camera defaults))) \<and>
   distance (zoom (- 5) (zoom 9 (Camera defaults)))
     \<le> far (zoom (- 5) (zoom 9 (Camera defaults))) \<and>
   reachable world0 \<and>
   distance (zoom (- 5) (camera world0)) = 0.1"
proof -
  have z: "near (zoom 9 (Camera defaults)) = 0.1"
      "distance (zoom 9 (Camera defaults)) = 10"
      "far (zoom 9 (Camera defaults)) = 100"
    by (simp_all add: zoom_def camera0_fields clamp_def)
  have w: "distance (zoom (- 5) (camera world0)) = 0.1"
    using C3_zoom [of "- 5" "camera world0" world0]
    by (simp add: world0_def camera0_fields clamp_def)
  show ?thesis
    using C3_zoom [of "- 5" "zoom 9 (Camera defaults)" world0]
      C3_zoom [of 0 "zoom 9 (Camera defaults)" world0] reachable.start w
    by (simp add: z)
qed

section \<open>Field of view at constant apparent size\<close>

text \<open>
  C4. \<^verbatim>\<open>adjFOVWithoutZoom(delta)\<close> sets the field of view to \<open>fov + delta\<close> clamped to
  \<open>[minFOV, maxFOV]\<close>, and the apparent size \<open>tan (fov / 2) \<cdot> distance\<close> is the same after
  the operation as before it, in exact arithmetic. Since the clamped field of view is
  strictly between 0 and \<open>\<pi>\<close>, the tangent that the code divides by is never zero, and the
  equation holds for every \<open>delta\<close>, whether the clamp is hit or not.
\<close>

theorem C4_adjFOVWithoutZoom:
  "fov (adjFOVWithoutZoom delta c) = clamp (fov c + delta) minFOV maxFOV \<and>
   minFOV \<le> fov (adjFOVWithoutZoom delta c) \<and>
   fov (adjFOVWithoutZoom delta c) \<le> maxFOV \<and>
   tan (fov (adjFOVWithoutZoom delta c) / 2) * distance (adjFOVWithoutZoom delta c)
     = tan (fov c / 2) * distance c"
proof -
  let ?f = "clamp (fov c + delta) minFOV maxFOV"
  have f: "fov (adjFOVWithoutZoom delta c) = ?f"
    by (simp add: adjFOVWithoutZoom_def Let_def)
  have b: "minFOV \<le> ?f \<and> ?f \<le> maxFOV"
    using clamp_bounds [OF fov_bounds(2)] by blast
  then have t: "tan (?f / 2) \<noteq> 0"
    using tan_half_fov_pos [of ?f] by simp
  have d: "distance (adjFOVWithoutZoom delta c) = tan (fov c / 2) * distance c / tan (?f / 2)"
    by (simp add: adjFOVWithoutZoom_def Let_def)
  have "tan (?f / 2) * (tan (fov c / 2) * distance c / tan (?f / 2)) = tan (fov c / 2) * distance c"
    using t by simp
  with f b d show ?thesis by simp
qed

section \<open>Reset\<close>

text \<open>
  C5. \<^verbatim>\<open>reset(e)\<close> always restores the field of view to its default; it restores the distance
  unless ctrl is held, and the azimuth, the elevation and the target unless ctrl or alt is
  held. The defaults are those of the \<^verbatim>\<open>defaults\<close> object, from which the camera is
  constructed.
\<close>

theorem C5_reset:
  "fov (reset e c) = fov defaults \<and>
   distance (reset e c) = (if ctrlKey e then distance c else distance defaults) \<and>
   azimuth (reset e c) = (if ctrlKey e \<or> altKey e then azimuth c else azimuth defaults) \<and>
   elevation (reset e c) = (if ctrlKey e \<or> altKey e then elevation c else elevation defaults) \<and>
   target (reset e c) = (if ctrlKey e \<or> altKey e then target c else target defaults) \<and>
   fov (Camera defaults) = fov defaults \<and>
   distance (Camera defaults) = distance defaults \<and>
   azimuth (Camera defaults) = azimuth defaults \<and>
   elevation (Camera defaults) = elevation defaults \<and>
   target (Camera defaults) = target defaults"
  by (simp add: reset_def Camera_def Let_def)

theorem C5_reset_witness:
  "fov (reset \<lparr> altKey = False, ctrlKey = True \<rparr> (adjFOV 1 (zoom 1 (Camera defaults))))
     = fov defaults \<and>
   distance (reset \<lparr> altKey = False, ctrlKey = True \<rparr> (adjFOV 1 (zoom 1 (Camera defaults))))
     = distance (adjFOV 1 (zoom 1 (Camera defaults))) \<and>
   fov (reset \<lparr> altKey = True, ctrlKey = False \<rparr> (orbit 1 1 (zoom 1 (Camera defaults))))
     = fov defaults \<and>
   distance (reset \<lparr> altKey = True, ctrlKey = False \<rparr> (orbit 1 1 (zoom 1 (Camera defaults))))
     = distance defaults \<and>
   azimuth (reset \<lparr> altKey = True, ctrlKey = False \<rparr> (orbit 1 1 (zoom 1 (Camera defaults))))
     = azimuth (orbit 1 1 (zoom 1 (Camera defaults))) \<and>
   elevation (reset \<lparr> altKey = True, ctrlKey = False \<rparr> (orbit 1 1 (zoom 1 (Camera defaults))))
     = elevation (orbit 1 1 (zoom 1 (Camera defaults))) \<and>
   target (reset \<lparr> altKey = True, ctrlKey = False \<rparr> (orbit 1 1 (zoom 1 (Camera defaults))))
     = target (orbit 1 1 (zoom 1 (Camera defaults))) \<and>
   azimuth (reset \<lparr> altKey = False, ctrlKey = False \<rparr> (orbit 1 1 (zoom 1 (Camera defaults))))
     = azimuth defaults"
  using C5_reset [of "\<lparr> altKey = False, ctrlKey = True \<rparr>" "adjFOV 1 (zoom 1 (Camera defaults))"]
    C5_reset [of "\<lparr> altKey = True, ctrlKey = False \<rparr>" "orbit 1 1 (zoom 1 (Camera defaults))"]
    C5_reset [of "\<lparr> altKey = False, ctrlKey = False \<rparr>" "orbit 1 1 (zoom 1 (Camera defaults))"]
  by simp

section \<open>What pan and orbit leave alone\<close>

text \<open>
  C6. \<^verbatim>\<open>pan(dx, dy, dz)\<close> leaves the distance and the field of view as they are, and
  \<^verbatim>\<open>orbit(dx, dy)\<close> leaves the target and the distance as they are.
\<close>

theorem C6_frame:
  "distance (pan dx dy dz c) = distance c \<and> fov (pan dx dy dz c) = fov c \<and>
   target (orbit dx dy c) = target c \<and> distance (orbit dx dy c) = distance c"
  by (simp add: pan_def orbit_def Let_def)

section \<open>The position is derived\<close>

text \<open>
  C7. After construction and after each of \<^verbatim>\<open>orbit\<close>, \<^verbatim>\<open>pan\<close>, \<^verbatim>\<open>zoom\<close>, \<^verbatim>\<open>adjFOV\<close>,
  \<^verbatim>\<open>adjFOVWithoutZoom\<close> and \<^verbatim>\<open>reset\<close>, the position is
  \<open>target + distance \<cdot> (cos elevation \<cdot> sin azimuth, sin elevation, cos elevation \<cdot> cos azimuth)\<close>.
  A tick of \<^verbatim>\<open>handleInputs\<close> keeps this (it calls those methods or nothing), so it holds in
  every state that the program reaches. The value that \<^verbatim>\<open>pan\<close> and the constructor store in
  \<^verbatim>\<open>position\<close> before they call \<^verbatim>\<open>updatePosition\<close> is overwritten there.
\<close>

theorem C7_position_derived:
  "position_ok (Camera d) \<and>
   position_ok (orbit dx dy c) \<and>
   position_ok (pan dx dy dz c) \<and>
   position_ok (zoom delta c) \<and>
   position_ok (adjFOV delta c) \<and>
   position_ok (adjFOVWithoutZoom delta c) \<and>
   position_ok (reset e c) \<and>
   (position_ok (camera w) \<longrightarrow> position_ok (camera (handleInputs s w))) \<and>
   (reachable w \<longrightarrow> position_ok (camera w))"
proof -
  have "position_ok (Camera d)"
    by (simp add: Camera_def)
  moreover have "position_ok (orbit dx dy c)"
    using run_ok [of "CallOrbit dx dy" c] by simp
  moreover have "position_ok (pan dx dy dz c)"
    using run_ok [of "CallPan dx dy dz" c] by simp
  moreover have "position_ok (zoom delta c)"
    using run_ok [of "CallZoom delta" c] by simp
  moreover have "position_ok (adjFOV delta c)"
    using run_ok [of "CallAdjFOV delta" c] by simp
  moreover have "position_ok (adjFOVWithoutZoom delta c)"
    using run_ok [of "CallAdjFOVWithoutZoom delta" c] by simp
  moreover have "position_ok (reset e c)"
    by (simp add: reset_def Let_def)
  ultimately show ?thesis
    using handleInputs_ok reachable_ok by blast
qed

theorem C7_position_derived_witness:
  "position_ok (camera world0) \<and>
   position_ok (camera (handleInputs 1 world0)) \<and>
   reachable (wheel \<lparr> altKey = False, ctrlKey = False, deltaY = 2000 \<rparr> world0) \<and>
   position (camera (wheel \<lparr> altKey = False, ctrlKey = False, deltaY = 2000 \<rparr> world0))
     = (0, 0, 2)"
proof -
  have r: "reachable (wheel \<lparr> altKey = False, ctrlKey = False, deltaY = 2000 \<rparr> world0)"
    by (intro reachable.on_wheel reachable.start)
  have c: "camera (wheel \<lparr> altKey = False, ctrlKey = False, deltaY = 2000 \<rparr> world0)
             = zoom 1 (Camera defaults)"
    by (simp add: wheel_def invoke_def world0_def ZOOM_SPEED_def)
  have z: "distance (zoom 1 (Camera defaults)) = 2" "target (zoom 1 (Camera defaults)) = (0, 0, 0)"
      "azimuth (zoom 1 (Camera defaults)) = 0" "elevation (zoom 1 (Camera defaults)) = 0"
    by (simp_all add: zoom_def camera0_fields clamp_def)
  have p0: "position_ok (camera world0)"
    using C7_position_derived [of defaults 0 0 "Camera defaults" 0 0 "\<lparr> altKey = False, ctrlKey = False \<rparr>"
        world0 1]
    by (simp add: world0_def)
  have p1: "position_ok (camera (handleInputs 1 world0))"
    using p0 C7_position_derived [of defaults 0 0 "Camera defaults" 0 0
        "\<lparr> altKey = False, ctrlKey = False \<rparr>" world0 1]
    by blast
  have p2: "position (camera (wheel \<lparr> altKey = False, ctrlKey = False, deltaY = 2000 \<rparr> world0))
     = (0, 0, 2)"
    using r C7_position_derived [of defaults 0 0 "Camera defaults" 0 0
        "\<lparr> altKey = False, ctrlKey = False \<rparr>"
        "wheel \<lparr> altKey = False, ctrlKey = False, deltaY = 2000 \<rparr> world0" 1]
    by (simp add: position_ok_def derived_position_def c z)
  from p0 p1 r p2 show ?thesis by blast
qed

section \<open>Key handling\<close>

text \<open>
  C8. The specification has at most one of \<^verbatim>\<open>keyZoom\<close>, \<^verbatim>\<open>keyFOV\<close> and
  \<^verbatim>\<open>keyFOVWithoutZoom\<close> true after a key event, so that a tick calls at most one of
  \<^verbatim>\<open>zoom\<close>, \<^verbatim>\<open>adjFOV\<close> and \<^verbatim>\<open>adjFOVWithoutZoom\<close>. \<^verbatim>\<open>keyCamera\<close> sets \<^verbatim>\<open>keyFOV\<close> from ctrl
  and \<^verbatim>\<open>keyFOVWithoutZoom\<close> from alt, each on its own: pressing \<^verbatim>\<open>f\<close> with ctrl and alt both
  held sets both flags, and the next tick calls \<^verbatim>\<open>adjFOV\<close> and then
  \<^verbatim>\<open>adjFOVWithoutZoom\<close>. (The wheel handler gives alt precedence over ctrl, see C10; with
  at most one of the two modifiers held, a handled key event leaves at most one of the
  three flags true, lemma \<open>zoom_flags_exclusive\<close>.)
\<close>

theorem C8_ctrl_alt_sets_two_flags:
  "keyFOV (keydown \<lparr> altKey = True, ctrlKey = True, key = ''f'', tagName = ''BODY'' \<rparr> world0) \<and>
   keyFOVWithoutZoom
     (keydown \<lparr> altKey = True, ctrlKey = True, key = ''f'', tagName = ''BODY'' \<rparr> world0) \<and>
   invoked (handleInputs 1
     (keydown \<lparr> altKey = True, ctrlKey = True, key = ''f'', tagName = ''BODY'' \<rparr> world0))
     = [CallAdjFOV (- KEY_FOV_SPEED), CallAdjFOVWithoutZoom (- KEY_FOV_SPEED)]"
  by (simp add: keydown_def keyCamera_def ignored_def keyMap_f world0_def handleInputs_def
      invoke_def num_def Let_def orbit_dirs_def pan_dirs_def)

text \<open>
  C9. For a key event that \<^verbatim>\<open>keyCamera\<close> ignores (the key is not in \<^verbatim>\<open>keyMap\<close>, or the
  target is an \<^verbatim>\<open>INPUT\<close> element, or it is ctrl+r), \<^verbatim>\<open>keyCamera\<close> and the keyup listener
  change nothing, and the keydown listener changes neither \<^verbatim>\<open>keyState\<close> nor the five
  activity flags; it changes nothing at all when the key is not the space key. The space
  key is not in \<^verbatim>\<open>keyMap\<close>, and the keydown listener calls \<^verbatim>\<open>camera.reset\<close> for it before
  \<^verbatim>\<open>keyCamera\<close> and its guard run, so outside a text field the space key resets the
  camera: after a wheel zoom to distance 2, pressing space sets the distance back to 1.
\<close>

theorem C9_ignored_keys:
  "keyMap (key e) = None \<or> tagName e = ''INPUT'' \<or> (key e = ''r'' \<and> ctrlKey e) \<longrightarrow>
     keyCamera e val w = w \<and>
     keyup e w = w \<and>
     (key e \<noteq> '' '' \<longrightarrow> keydown e w = w) \<and>
     (key e = '' '' \<and> tagName e \<noteq> ''INPUT'' \<longrightarrow> camera (keydown e w) = reset e (camera w)) \<and>
     keyState (keydown e w) = keyState w \<and>
     keyOrbit (keydown e w) = keyOrbit w \<and>
     keyPan (keydown e w) = keyPan w \<and>
     keyZoom (keydown e w) = keyZoom w \<and>
     keyFOV (keydown e w) = keyFOV w \<and>
     keyFOVWithoutZoom (keydown e w) = keyFOVWithoutZoom w"
  by (simp add: keyCamera_def keyup_def keydown_def ignored_def invoke_def reset_def)

theorem C9_ignored_keys_witness:
  "tagName \<lparr> altKey = False, ctrlKey = False, key = ''w'', tagName = ''INPUT'' \<rparr> = ''INPUT'' \<and>
   key \<lparr> altKey = False, ctrlKey = False, key = ''w'', tagName = ''INPUT'' \<rparr> \<noteq> '' '' \<and>
   keydown \<lparr> altKey = False, ctrlKey = False, key = ''w'', tagName = ''INPUT'' \<rparr> world0 = world0 \<and>
   keyup \<lparr> altKey = False, ctrlKey = False, key = ''w'', tagName = ''INPUT'' \<rparr> world0 = world0"
  using C9_ignored_keys
    [of "\<lparr> altKey = False, ctrlKey = False, key = ''w'', tagName = ''INPUT'' \<rparr>" True world0]
  by simp

theorem C9_space_resets_counterexample:
  "keyMap (key \<lparr> altKey = False, ctrlKey = False, key = '' '', tagName = ''BODY'' \<rparr>) = None \<and>
   distance (camera (wheel \<lparr> altKey = False, ctrlKey = False, deltaY = 2000 \<rparr> world0)) = 2 \<and>
   distance (camera
     (keydown \<lparr> altKey = False, ctrlKey = False, key = '' '', tagName = ''BODY'' \<rparr>
        (wheel \<lparr> altKey = False, ctrlKey = False, deltaY = 2000 \<rparr> world0))) = 1"
  by (simp add: keyMap_space keydown_def keyCamera_def ignored_def wheel_def invoke_def
      world0_def zoom_def reset_def Camera_def defaults_def clamp_def ZOOM_SPEED_def Let_def)

section \<open>The wheel\<close>

text \<open>
  C10. A wheel event calls exactly one camera method: \<^verbatim>\<open>adjFOVWithoutZoom\<close> when alt is
  held, otherwise \<^verbatim>\<open>adjFOV\<close> when ctrl is held, otherwise \<^verbatim>\<open>zoom\<close>. With alt and ctrl
  both held it is \<^verbatim>\<open>adjFOVWithoutZoom(deltaY \<cdot> FOV_SPEED)\<close>, and neither \<^verbatim>\<open>adjFOV\<close> nor
  \<^verbatim>\<open>zoom\<close> is called.
\<close>

theorem C10_wheel:
  "invoked (wheel e w)
     = invoked w @
       [if altKey e then CallAdjFOVWithoutZoom (deltaY e * FOV_SPEED)
        else if ctrlKey e then CallAdjFOV (deltaY e * FOV_SPEED)
        else CallZoom (deltaY e * ZOOM_SPEED)] \<and>
   length (invoked (wheel e w)) = length (invoked w) + 1 \<and>
   (altKey e \<and> ctrlKey e \<longrightarrow>
      invoked (wheel e w) = invoked w @ [CallAdjFOVWithoutZoom (deltaY e * FOV_SPEED)] \<and>
      camera (wheel e w) = adjFOVWithoutZoom (deltaY e * FOV_SPEED) (camera w))"
  by (simp add: wheel_def invoke_def)

theorem C10_wheel_witness:
  "invoked (wheel \<lparr> altKey = True, ctrlKey = True, deltaY = 100 \<rparr> world0)
     = [CallAdjFOVWithoutZoom (100 * FOV_SPEED)] \<and>
   invoked (wheel \<lparr> altKey = False, ctrlKey = True, deltaY = 100 \<rparr> world0)
     = [CallAdjFOV (100 * FOV_SPEED)] \<and>
   invoked (wheel \<lparr> altKey = False, ctrlKey = False, deltaY = 100 \<rparr> world0)
     = [CallZoom (100 * ZOOM_SPEED)]"
  using C10_wheel [of "\<lparr> altKey = True, ctrlKey = True, deltaY = 100 \<rparr>" world0]
    C10_wheel [of "\<lparr> altKey = False, ctrlKey = True, deltaY = 100 \<rparr>" world0]
    C10_wheel [of "\<lparr> altKey = False, ctrlKey = False, deltaY = 100 \<rparr>" world0]
  by (simp add: world0_def)

end
